theory Spec2Isabelle
  imports Complex_Main
begin

section \<open>Python values used by the RPC server\<close>

text \<open>
  The server is \<^verbatim>\<open>src/rpcserver/__init__.py\<close>. A Python \<^verbatim>\<open>bytes\<close> object is a
  list of bytes (\<^typ>\<open>char\<close> is a byte). A Python \<^verbatim>\<open>str\<close> is represented by its
  UTF-8 encoding, so \<^verbatim>\<open>b.decode("utf-8")\<close> returns the same bytes when they are
  well-formed UTF-8 and raises \<^verbatim>\<open>UnicodeDecodeError\<close> otherwise, and \<^verbatim>\<open>+\<close> on
  \<^verbatim>\<open>str\<close> is list append. Clock readings (\<^verbatim>\<open>time.time()\<close>) are reals: the rounding
  of floating-point subtraction is not modelled.
\<close>

type_synonym bytes = string
type_synonym str = string
type_synonym jobid = string
type_synonym ref = nat
type_synonym pipe = nat

datatype pykey = KStr string | KNone | KPipe pipe

datatype py_error = Exception str | KeyError pykey | UnicodeDecodeError | OSError | ValueError

datatype pyval = VNone | VBool bool | VNum real | VStr str | VList "pyval list"

definition cont :: "nat \<Rightarrow> bool" where
  "cont b = (0x80 \<le> b \<and> b \<le> 0xBF)"

text \<open>Well-formed UTF-8 byte sequences, as the strict decoder accepts them: no overlong
  forms, no surrogates, nothing above U+10FFFF.\<close>

fun utf8_ok :: "nat list \<Rightarrow> bool" where
  "utf8_ok [] = True"
| "utf8_ok (a # bs) =
    (if a < 0x80 then utf8_ok bs
     else if 0xC2 \<le> a \<and> a \<le> 0xDF then
       (case bs of b # r \<Rightarrow> cont b \<and> utf8_ok r | _ \<Rightarrow> False)
     else if 0xE0 \<le> a \<and> a \<le> 0xEF then
       (case bs of b # c # r \<Rightarrow>
           (if a = 0xE0 then 0xA0 else 0x80) \<le> b \<and> b \<le> (if a = 0xED then 0x9F else 0xBF)
           \<and> cont c \<and> utf8_ok r
        | _ \<Rightarrow> False)
     else if 0xF0 \<le> a \<and> a \<le> 0xF4 then
       (case bs of b # c # d # r \<Rightarrow>
           (if a = 0xF0 then 0x90 else 0x80) \<le> b \<and> b \<le> (if a = 0xF4 then 0x8F else 0xBF)
           \<and> cont c \<and> cont d \<and> utf8_ok r
        | _ \<Rightarrow> False)
     else False)"

definition is_utf8 :: "bytes \<Rightarrow> bool" where
  "is_utf8 bs = utf8_ok (map of_char bs)"

definition decode :: "bytes \<Rightarrow> py_error + str" where
  "decode bs = (if is_utf8 bs then Inr bs else Inl UnicodeDecodeError)"

text \<open>\<^verbatim>\<open>sep.join(xs)\<close>.\<close>

fun join :: "'a list \<Rightarrow> 'a list list \<Rightarrow> 'a list" where
  "join sep [] = []"
| "join sep [x] = x"
| "join sep (x # y # ys) = x @ sep @ join sep (y # ys)"

text \<open>\<^verbatim>\<open>"%s" % k\<close> for an integer: its decimal digits.\<close>

fun digits :: "nat \<Rightarrow> string" where
  "digits n = (if n < 10 then [''0123456789'' ! n]
               else digits (n div 10) @ [''0123456789'' ! (n mod 10)])"

definition str_int :: "int \<Rightarrow> string" where
  "str_int k = (if k < 0 then CHR ''-'' # digits (nat (- k)) else digits (nat k))"

section \<open>Job records, the registry and the server state\<close>

datatype job_status = Queued | InProgress | Complete

text \<open>A job record is a Python dict: every key may be absent. \<open>lock\<close> says whether the
  key \<^verbatim>\<open>'lock'\<close> is present; \<open>result\<close> may be present with the value \<^verbatim>\<open>None\<close>.\<close>

record job =
  status :: "job_status option"
  queueTime :: "real option"
  lock :: bool
  processTime :: "real option"
  data :: "bytes list option"
  polldata :: "bytes list option"
  error :: "str option"
  results :: "str option"
  result :: "str option option"
  pipe :: "pipe option"

definition empty_job :: job where
  "empty_job = \<lparr>status = None, queueTime = None, lock = False, processTime = None,
     data = None, polldata = None, error = None, results = None, result = None,
     pipe = None\<rparr>"

record envelope =
  e_method :: string
  e_args :: "string \<rightharpoonup> pyval"
  e_id :: jobid

text \<open>The module globals \<^verbatim>\<open>queues\<close>, \<^verbatim>\<open>handlerThreads\<close>, \<^verbatim>\<open>handlers\<close> and the
  \<^verbatim>\<open>OutputThread\<close> object (\<open>idMap\<close>, \<open>sel\<close>), with the store of the dict objects the
  registry refers to (\<open>heap\<close>, allocated upwards from \<open>next_ref\<close>) and the set of closed
  pipes. The worker and the command runner keep a reference to a record across calls,
  so a record replaced in the registry is a different object.\<close>

record server =
  queues :: "string \<Rightarrow> envelope list"
  handlerThreads :: "string set"
  handlers :: "jobid \<rightharpoonup> ref"
  heap :: "ref \<Rightarrow> job"
  next_ref :: ref
  outputThread :: bool
  idMap :: "pipe \<rightharpoonup> jobid"
  sel :: "pipe set"
  closed_pipes :: "pipe set"

definition queue_names :: "string list" where
  "queue_names = [''cpu-bound'', ''internal-network-bound'', ''external-network-bound'',
     ''local'']"

definition queueMap :: "string \<rightharpoonup> string" where
  "queueMap = map_of
     [(''upload_inputs'', ''internal-network-bound''),
      (''convert_inputs'', ''cpu-bound''),
      (''download_proxies'', ''internal-network-bound''),
      (''download_editables'', ''internal-network-bound''),
      (''upload_edl'', ''local''),
      (''upload_proxy_edl'', ''local''),
      (''render_edl'', ''cpu-bound''),
      (''upload_to_youtube'', ''external-network-bound''),
      (''archive_to_s3'', ''external-network-bound''),
      (''make_slideshow'', ''cpu-bound'')]"

definition init :: server where
  "init = \<lparr>queues = (\<lambda>_. []), handlerThreads = {}, handlers = Map.empty,
     heap = (\<lambda>_. empty_job), next_ref = 0, outputThread = False, idMap = Map.empty,
     sel = {}, closed_pipes = {}\<rparr>"

section \<open>The poll protocol handler\<close>

record response =
  resp_status :: job_status
  resp_result :: str
  queueDuration :: real
  processDuration :: real

text \<open>\<^verbatim>\<open>poll(id)\<close> at clock reading \<open>now\<close>. The state after the call is returned also when the
  call raises: what it did before the raise stays done.\<close>

definition poll :: "jobid \<Rightarrow> real \<Rightarrow> server \<Rightarrow> (py_error + response) \<times> server" where
  "poll i now s =
    (case handlers s i of
       None \<Rightarrow> (Inl (Exception (''No record of id '' @ i)), s)
     | Some r \<Rightarrow>
        let handler = heap s r in
        (case status handler of
           None \<Rightarrow> (Inl (KeyError (KStr ''status'')), s)
         | Some st \<Rightarrow>
            if \<not> lock handler then (Inl (KeyError (KStr ''lock'')), s)
            else
              (case polldata handler of
                 None \<Rightarrow> (Inl (KeyError (KStr ''polldata'')), s)
               | Some pd \<Rightarrow>
                  (case data handler of
                     None \<Rightarrow> (Inl (KeyError (KStr ''data'')), s)
                   | Some d \<Rightarrow>
                      let pd' = pd @ [concat d];
                          handler' = handler\<lparr>polldata := Some pd', data := Some []\<rparr>;
                          s' = s\<lparr>heap := (heap s)(r := handler')\<rparr>
                      in
                      (case decode (last pd') of
                         Inl e \<Rightarrow> (Inl e, s')
                       | Inr res \<Rightarrow>
                          (case queueTime handler' of
                             None \<Rightarrow> (Inl (KeyError (KStr ''queueTime'')), s')
                           | Some qt \<Rightarrow>
                              (case processTime handler' of
                                 None \<Rightarrow> (Inl (KeyError (KStr ''processTime'')), s')
                               | Some pt \<Rightarrow>
                                  let res0 = \<lparr>resp_status = st, resp_result = res,
                                        queueDuration = qt, processDuration = now - pt\<rparr>
                                  in
                                  if st = Complete then
                                    (case decode (concat pd') of
                                       Inl e \<Rightarrow> (Inl e, s')
                                     | Inr full \<Rightarrow>
                                        let s'' = s'\<lparr>handlers := (handlers s')(i := None)\<rparr> in
                                        (case error handler' of
                                           Some m \<Rightarrow> (Inl (Exception m), s'')
                                         | None \<Rightarrow>
                                            (Inr (res0\<lparr>resp_result := full,
                                               processDuration := pt\<rparr>), s'')))
                                  else (Inr res0, s'))))))))"

text \<open>\<^verbatim>\<open>list_outstanding()\<close>: the identifiers in the registry.\<close>

definition list_outstanding :: "server \<Rightarrow> jobid set" where
  "list_outstanding s = dom (handlers s)"

section \<open>The queue router\<close>

text \<open>\<^verbatim>\<open>launch_thread(method, args)\<close>. \<open>jid\<close> is \<^verbatim>\<open>D.get('id', None)\<close> of the request body
  and \<open>now\<close> the clock reading taken for \<^verbatim>\<open>queueTime\<close>. \<^verbatim>\<open>queue.put(data, block=False)\<close> on
  an unbounded queue appends and never raises.\<close>

definition launch_thread ::
  "string \<Rightarrow> (string \<rightharpoonup> pyval) \<Rightarrow> jobid option \<Rightarrow> real \<Rightarrow> server
     \<Rightarrow> (py_error + str) \<times> server" where
  "launch_thread method args jid now s =
    (case jid of
       None \<Rightarrow> (Inl (Exception ''No ID found, screw this''), s)
     | Some i \<Rightarrow>
        if i = [] then (Inl (Exception ''No ID found, screw this''), s)
        else
          let dat = \<lparr>e_method = method, e_args = args, e_id = i\<rparr>;
              queueName0 = (case queueMap method of None \<Rightarrow> ''local'' | Some q \<Rightarrow> q);
              queueName = (if queueName0 \<in> set queue_names then queueName0 else ''local'');
              r = next_ref s;
              s1 = s\<lparr>handlers := (handlers s)(i \<mapsto> r),
                     heap := (heap s)(r := empty_job\<lparr>status := Some Queued,
                                                     queueTime := Some now\<rparr>),
                     next_ref := Suc r\<rparr>;
              s2 = s1\<lparr>queues := (queues s1)(queueName := queues s1 queueName @ [dat])\<rparr>;
              s3 = (if queueName \<in> handlerThreads s2 then s2
                    else s2\<lparr>handlerThreads := insert queueName (handlerThreads s2)\<rparr>)
          in (Inr (''Please poll with id '' @ i), s3))"

section \<open>The output multiplexer\<close>

text \<open>\<^verbatim>\<open>OutputThread.add\<close>, \<^verbatim>\<open>removeId\<close>, \<^verbatim>\<open>remove\<close> and \<^verbatim>\<open>read\<close>. The selector's
  \<^verbatim>\<open>register\<close> raises \<^verbatim>\<open>KeyError\<close> for a file that is already registered and
  \<^verbatim>\<open>unregister\<close> raises it for one that is not. \<open>dat\<close> is what \<^verbatim>\<open>fd.read(1024)\<close>
  returns on an open pipe; the empty string is end-of-stream. On a closed pipe
  \<^verbatim>\<open>fd.read\<close> raises \<^verbatim>\<open>ValueError\<close>.\<close>

definition add :: "jobid \<Rightarrow> server \<Rightarrow> (py_error + unit) \<times> server" where
  "add i s =
    (case handlers s i of
       None \<Rightarrow> (Inl (KeyError (KStr i)), s)
     | Some r \<Rightarrow>
        (case pipe (heap s r) of
           None \<Rightarrow> (Inl (KeyError (KStr ''pipe'')), s)
         | Some fd \<Rightarrow>
            let s1 = s\<lparr>idMap := (idMap s)(fd \<mapsto> i)\<rparr> in
            if fd \<in> sel s1 then (Inr (), s1)
            else (Inr (), s1\<lparr>sel := insert fd (sel s1)\<rparr>)))"

definition remove :: "pipe \<Rightarrow> server \<Rightarrow> (py_error + unit) \<times> server" where
  "remove fd s =
    (case idMap s fd of
       None \<Rightarrow> (Inl (KeyError (KPipe fd)), s)
     | Some _ \<Rightarrow>
        let s1 = s\<lparr>idMap := (idMap s)(fd := None)\<rparr> in
        if fd \<notin> sel s1 then (Inl (KeyError (KPipe fd)), s1)
        else (Inr (), s1\<lparr>sel := sel s1 - {fd},
                          closed_pipes := insert fd (closed_pipes s1)\<rparr>))"

definition removeId :: "jobid option \<Rightarrow> server \<Rightarrow> (py_error + unit) \<times> server" where
  "removeId jid s =
    (case jid of
       None \<Rightarrow> (Inl (KeyError KNone), s)
     | Some i \<Rightarrow>
        (case handlers s i of
           None \<Rightarrow> (Inl (KeyError (KStr i)), s)
         | Some r \<Rightarrow>
            (case pipe (heap s r) of
               None \<Rightarrow> (Inl (KeyError (KStr ''pipe'')), s)
             | Some fd \<Rightarrow> remove fd s)))"

definition read :: "pipe \<Rightarrow> bytes \<Rightarrow> server \<Rightarrow> (py_error + unit) \<times> server" where
  "read fd dat s =
    (if fd \<in> closed_pipes s then (Inl ValueError, s)
     else
     let jid = idMap s fd in
     if dat \<noteq> [] then
       (case jid of
          None \<Rightarrow> removeId jid s
        | Some i \<Rightarrow>
           (case handlers s i of
              None \<Rightarrow> removeId jid s
            | Some r \<Rightarrow>
               let handler = heap s r in
               if i = [] \<or> handler = empty_job then removeId jid s
               else if \<not> lock handler then (Inl (KeyError (KStr ''lock'')), s)
               else
                 (case data handler of
                    None \<Rightarrow> (Inl (KeyError (KStr ''data'')), s)
                  | Some d \<Rightarrow>
                     (Inr (), s\<lparr>heap := (heap s)(r := handler\<lparr>data := Some (d @ [dat])\<rparr>)\<rparr>))))
     else removeId jid s)"

section \<open>The category worker\<close>

text \<open>What the \<^verbatim>\<open>try\<close> body of \<^verbatim>\<open>HandlerThread.run\<close> did: \<open>Raised m\<close> when it raised an
  \<^verbatim>\<open>Exception\<close> \<open>e\<close> with \<^verbatim>\<open>str(e)\<close> = \<open>m\<close>, \<open>Returned output\<close> when the handler
  returned \<open>output\<close>. The operation handlers work on the file system and on
  subprocesses, so the thread's attributes are parameters: \<open>hasattr\<close> is
  \<^verbatim>\<open>hasattr(self, method)\<close> and \<open>call\<close> is \<^verbatim>\<open>getattr(self, method)(**args)\<close>, with the
  state it leaves.\<close>

datatype outcome = Raised str | Returned "str option"

record thread_env =
  hasattr :: "string \<Rightarrow> bool"
  call :: "string \<Rightarrow> (string \<rightharpoonup> pyval) \<Rightarrow> server \<Rightarrow> outcome \<times> server"

text \<open>Lines 139 to 150 of \<^verbatim>\<open>run\<close>, with the two clock readings \<open>t1\<close> and \<open>t2\<close>. A
  \<^verbatim>\<open>KeyError\<close> here is outside the \<^verbatim>\<open>try\<close>.\<close>

definition run_begin ::
  "envelope \<Rightarrow> real \<Rightarrow> real \<Rightarrow> server
     \<Rightarrow> (py_error + ref \<times> (string \<rightharpoonup> pyval)) \<times> server" where
  "run_begin item t1 t2 s =
    (let i = e_id item in
     case (case handlers s i of
             Some r \<Rightarrow> (r, s)
           | None \<Rightarrow> (next_ref s,
                s\<lparr>handlers := (handlers s)(i \<mapsto> next_ref s),
                  heap := (heap s)(next_ref s := empty_job),
                  next_ref := Suc (next_ref s)\<rparr>)) of
       (r, s0) \<Rightarrow>
        let d1 = (heap s0 r)\<lparr>lock := True, status := Some InProgress,
                   processTime := Some t1\<rparr>
        in
        (case queueTime d1 of
           None \<Rightarrow> (Inl (KeyError (KStr ''queueTime'')), s0\<lparr>heap := (heap s0)(r := d1)\<rparr>)
         | Some q \<Rightarrow>
            (Inr (r, (e_args item)(''myId'' \<mapsto> VStr i)),
             s0\<lparr>heap := (heap s0)(r := d1\<lparr>queueTime := Some (t2 - q), data := Some [],
                                          polldata := Some []\<rparr>)\<rparr>)))"

text \<open>Lines 157 to 162 of \<^verbatim>\<open>run\<close>: the handler's return value or the message of its
  exception is stored, then the status is set to complete. No lock is held.\<close>

definition run_end_status :: "ref \<Rightarrow> outcome \<Rightarrow> server \<Rightarrow> server" where
  "run_end_status r out s =
    (let d = heap s r;
         d1 = (case out of
                 Raised m \<Rightarrow> d\<lparr>error := Some m\<rparr>
               | Returned output \<Rightarrow>
                  (case output of
                     None \<Rightarrow> d
                   | Some v \<Rightarrow> if v = [] then d else d\<lparr>results := Some v\<rparr>))
     in s\<lparr>heap := (heap s)(r := d1\<lparr>status := Some Complete\<rparr>)\<rparr>)"

text \<open>Line 163 of \<^verbatim>\<open>run\<close>, with the clock reading \<open>t3\<close>: the start time in
  \<^verbatim>\<open>processTime\<close> is replaced by the duration. Between the two steps other threads run:
  the record has status complete while \<^verbatim>\<open>processTime\<close> is still the start time.\<close>

definition run_end_time :: "ref \<Rightarrow> real \<Rightarrow> server \<Rightarrow> (py_error + unit) \<times> server" where
  "run_end_time r t3 s =
    (case processTime (heap s r) of
       None \<Rightarrow> (Inl (KeyError (KStr ''processTime'')), s)
     | Some t \<Rightarrow>
        (Inr (), s\<lparr>heap := (heap s)(r := (heap s r)\<lparr>processTime := Some (t3 - t)\<rparr>)\<rparr>))"

text \<open>Lines 157 to 163 with no other thread in between.\<close>

definition run_end :: "ref \<Rightarrow> outcome \<Rightarrow> real \<Rightarrow> server \<Rightarrow> (py_error + unit) \<times> server" where
  "run_end r out t3 s = run_end_time r t3 (run_end_status r out s)"

text \<open>One turn of the loop body on a dequeued envelope. An envelope is the dict made by
  \<^verbatim>\<open>launch_thread\<close>: it is not empty and has its three keys.\<close>

definition run_item ::
  "thread_env \<Rightarrow> envelope \<Rightarrow> real \<times> real \<times> real \<Rightarrow> server \<Rightarrow> (py_error + unit) \<times> server" where
  "run_item env item ts s =
    (case ts of
       (t1, t2, t3) \<Rightarrow>
        if e_id item = [] \<or> e_method item = [] then (Inr (), s)
        else
          (case run_begin item t1 t2 s of
             (Inl e, s1) \<Rightarrow> (Inl e, s1)
           | (Inr (r, args), s1) \<Rightarrow>
              (case (if \<not> hasattr env (e_method item)
                     then (Raised (''No thread handler exists for method '' @ e_method item), s1)
                     else call env (e_method item) args s1) of
                 (out, s2) \<Rightarrow> run_end r out t3 s2)))"

text \<open>The \<^verbatim>\<open>while True\<close> loop of the worker of queue \<open>q\<close>, for as many turns as there are
  clock readings: each turn takes the envelope at the head of the queue. \<open>Inl e\<close> is the
  exception that ended the thread; on an empty queue the thread waits in
  \<^verbatim>\<open>queue.get()\<close>.\<close>

fun run ::
  "thread_env \<Rightarrow> string \<Rightarrow> (real \<times> real \<times> real) list \<Rightarrow> server \<Rightarrow> (py_error + unit) \<times> server" where
  "run env q [] s = (Inr (), s)"
| "run env q (ts # rest) s =
    (case queues s q of
       [] \<Rightarrow> (Inr (), s)
     | item # items \<Rightarrow>
        (case run_item env item ts (s\<lparr>queues := (queues s)(q := items)\<rparr>) of
           (Inl e, s') \<Rightarrow> (Inl e, s')
         | (Inr _, s') \<Rightarrow> run env q rest s'))"

section \<open>The command runner\<close>

text \<open>\<^verbatim>\<open>execCommand(command, id_)\<close> up to \<^verbatim>\<open>p.wait()\<close>: \<open>p\<close> is the pipe of the spawned
  process, \<open>None\<close> when \<^verbatim>\<open>Popen\<close> raised.\<close>

definition execCommand_begin ::
  "jobid \<Rightarrow> pipe option \<Rightarrow> server \<Rightarrow> (py_error + ref) \<times> server" where
  "execCommand_begin i p s =
    (let s0 = (if outputThread s then s
               else s\<lparr>outputThread := True, idMap := Map.empty, sel := {}\<rparr>)
     in
     case handlers s0 i of
       None \<Rightarrow> (Inl (KeyError (KStr i)), s0)
     | Some r \<Rightarrow>
        (case p of
           None \<Rightarrow> (Inl OSError, s0)
         | Some fd \<Rightarrow>
            let s1 = s0\<lparr>heap := (heap s0)(r := (heap s0 r)\<lparr>pipe := Some fd\<rparr>)\<rparr> in
            (case add i s1 of
               (Inl e, s2) \<Rightarrow> (Inl e, s2)
             | (Inr _, s2) \<Rightarrow> (Inr r, s2))))"

text \<open>\<^verbatim>\<open>execCommand\<close> from the return of \<^verbatim>\<open>p.wait()\<close> with exit code \<open>retCode\<close>; \<open>r\<close> is the
  record \<^verbatim>\<open>handler\<close> looked up before the spawn.\<close>

definition execCommand_end ::
  "ref \<Rightarrow> str list \<Rightarrow> int \<Rightarrow> server \<Rightarrow> (py_error + unit) \<times> server" where
  "execCommand_end r command retCode s =
    (let handler = heap s r in
     case pipe handler of
       None \<Rightarrow> (Inl (KeyError (KStr ''pipe'')), s)
     | Some p \<Rightarrow>
        let s1 = s\<lparr>closed_pipes := insert p (closed_pipes s)\<rparr> in
        if \<not> lock handler then (Inl (KeyError (KStr ''lock'')), s1)
        else
          (case data handler of
             None \<Rightarrow> (Inl (KeyError (KStr ''data'')), s1)
           | Some d \<Rightarrow>
              (case (if d \<noteq> [] then map_sum id Some (decode (join '' '' d)) else Inr None) of
                 Inl e \<Rightarrow> (Inl e, s1)
               | Inr output \<Rightarrow>
                  if retCode \<noteq> 0 then
                    (Inl (Exception
                       (''Command: '' @ join '' '' command @ '' returned '' @ str_int retCode
                        @ (case output of
                             None \<Rightarrow> []
                           | Some out \<Rightarrow>
                              if out = [] then []
                              else [CHR 0x0A, CHR 0x0A] @ ''Output: '' @ out))), s1)
                  else (Inr (), s1\<lparr>heap := (heap s1)(r := handler\<lparr>result := Some output\<rparr>)\<rparr>))))"

section \<open>Traces of one job\<close>

text \<open>What happens to a job while its command runs: the multiplexer reads a chunk from
  the job's pipe, or a client polls. \<open>replay\<close> performs the events in order and collects
  what each poll returned or raised.\<close>

datatype event = Chunk bytes | Poll real

fun replay ::
  "jobid \<Rightarrow> pipe \<Rightarrow> event list \<Rightarrow> server \<Rightarrow> (py_error + response) list \<times> server" where
  "replay i fd [] s = ([], s)"
| "replay i fd (Chunk c # es) s = replay i fd es (snd (read fd c s))"
| "replay i fd (Poll t # es) s =
    (case poll i t s of
       (out, s') \<Rightarrow> (case replay i fd es s' of (outs, s'') \<Rightarrow> (out # outs, s'')))"



text \<open>The registry maps \<open>i\<close> to the record \<open>r\<close>, and \<open>r\<close> is a record its worker has
  started: the lock, both buffers and both times are there.\<close>

definition pollable ::
  "server \<Rightarrow> jobid \<Rightarrow> ref \<Rightarrow> job_status \<Rightarrow> bytes list \<Rightarrow> bytes list \<Rightarrow> real \<Rightarrow> real \<Rightarrow> bool" where
  "pollable s i r st pd d qt pt =
    (handlers s i = Some r \<and> status (heap s r) = Some st \<and> lock (heap s r)
     \<and> polldata (heap s r) = Some pd \<and> data (heap s r) = Some d
     \<and> queueTime (heap s r) = Some qt \<and> processTime (heap s r) = Some pt)"

text \<open>\<^verbatim>\<open>queueMap.get(method, "local")\<close>.\<close>

definition category :: "string \<Rightarrow> string" where
  "category m = (case queueMap m of None \<Rightarrow> ''local'' | Some q \<Rightarrow> q)"

text \<open>The registry maps \<open>i\<close> to the record \<open>r\<close>, whose status and both times are
  there.\<close>

definition timed :: "server \<Rightarrow> jobid \<Rightarrow> ref \<Rightarrow> job_status \<Rightarrow> real \<Rightarrow> real \<Rightarrow> bool" where
  "timed s i r st qt pt =
    (handlers s i = Some r \<and> status (heap s r) = Some st
     \<and> queueTime (heap s r) = Some qt \<and> processTime (heap s r) = Some pt)"

text \<open>No operation handler deletes a key of a job record; this is what the worker needs of
  them for the record \<open>r\<close> it holds.\<close>

definition keeps_processTime :: "thread_env \<Rightarrow> ref \<Rightarrow> bool" where
  "keeps_processTime env r =
    (\<forall>m a s. processTime (heap s r) \<noteq> None
       \<longrightarrow> processTime (heap (snd (call env m a s)) r) \<noteq> None)"

section \<open>A sample job\<close>

text \<open>The job \<^verbatim>\<open>abc\<close>, an \<^verbatim>\<open>archive_to_s3\<close> request submitted at time 10 to a fresh server,
  dequeued at time 12, with its command spawned on pipe 7.\<close>

definition sample_item :: envelope where
  "sample_item = \<lparr>e_method = ''archive_to_s3'', e_args = Map.empty, e_id = ''abc''\<rparr>"

definition sample_command :: "str list" where
  "sample_command = [''archive_to_s3.py'', ''--project'', ''demo'']"

definition submitted :: server where
  "submitted = snd (launch_thread ''archive_to_s3'' Map.empty (Some ''abc'') 10 init)"

definition started :: server where
  "started = snd (run_begin sample_item 12 13 submitted)"

definition spawned :: server where
  "spawned = snd (execCommand_begin ''abc'' (Some 7) started)"

text \<open>The command exits with code 1 without output: the command runner raises, so does
  the handler, and the worker finishes the job at time 20.\<close>

definition failed :: server where
  "failed = snd (run_end 0 (Raised ''Command: archive_to_s3.py --project demo returned 1'') 20
     (snd (execCommand_end 0 sample_command 1 spawned)))"


text \<open>The command writes \<^verbatim>\<open>a\<close>, a client polls at time 15, the command exits with code 0
  and the worker finishes the job at time 20. In \<open>finishing\<close> the worker has set the
  status and has not yet replaced the start time.\<close>

definition polled_once :: "(py_error + response) \<times> server" where
  "polled_once = poll ''abc'' 15 (snd (read 7 ''a'' spawned))"

definition finishing :: server where
  "finishing = run_end_status 0 (Returned None)
     (snd (execCommand_end 0 sample_command 0 (snd polled_once)))"


text \<open>The command writes \<^verbatim>\<open>a\<close> and then \<^verbatim>\<open>b\<close> (two reads of the multiplexer) and exits
  with code 0.\<close>

definition two_chunks :: server where
  "two_chunks = snd (read 7 ''b'' (snd (read 7 ''a'' spawned)))"

definition exited :: server where
  "exited = snd (execCommand_end 0 sample_command 0 two_chunks)"

text \<open>A thread whose handlers all raise.\<close>

definition failing_env :: thread_env where
  "failing_env = \<lparr>hasattr = (\<lambda>m. m \<in> dom queueMap), call = (\<lambda>m a s. (Raised ''boom'', s))\<rparr>"

section \<open>Basic facts\<close>

lemma run_end_eq:
  "run_end r out t3 s =
    (let d = heap s r;
         d1 = (case out of
                 Raised m \<Rightarrow> d\<lparr>error := Some m\<rparr>
               | Returned output \<Rightarrow>
                  (case output of
                     None \<Rightarrow> d
                   | Some v \<Rightarrow> if v = [] then d else d\<lparr>results := Some v\<rparr>));
         d2 = d1\<lparr>status := Some Complete\<rparr>
     in
     case processTime d2 of
       None \<Rightarrow> (Inl (KeyError (KStr ''processTime'')), s\<lparr>heap := (heap s)(r := d2)\<rparr>)
     | Some t \<Rightarrow> (Inr (), s\<lparr>heap := (heap s)(r := d2\<lparr>processTime := Some (t3 - t)\<rparr>)\<rparr>))"
  by (simp add: run_end_def run_end_status_def run_end_time_def Let_def split: option.splits)

lemma decode_ok: "is_utf8 bs \<Longrightarrow> decode bs = Inr bs"
  by (simp add: decode_def)

lemma decode_bad: "\<not> is_utf8 bs \<Longrightarrow> decode bs = Inl UnicodeDecodeError"
  by (simp add: decode_def)

lemma queueMap_range: "queueMap m = Some q \<Longrightarrow> q \<in> set queue_names"
  by (auto simp: queueMap_def queue_names_def split: if_splits)

lemma local_queue: "''local'' \<in> set queue_names"
  by (simp add: queue_names_def)

lemma category_queue: "category m \<in> set queue_names"
  using queueMap_range[of m] local_queue by (auto simp: category_def split: option.splits)

lemma launch_thread_Some:
  assumes "jid \<noteq> []"
  shows "launch_thread meth args (Some jid) now s =
    (Inr (''Please poll with id '' @ jid),
     s\<lparr>handlers := (handlers s)(jid \<mapsto> next_ref s),
       heap := (heap s)(next_ref s := empty_job\<lparr>status := Some Queued, queueTime := Some now\<rparr>),
       next_ref := Suc (next_ref s),
       queues := (queues s)(category meth :=
          queues s (category meth) @ [\<lparr>e_method = meth, e_args = args, e_id = jid\<rparr>]),
       handlerThreads := insert (category meth) (handlerThreads s)\<rparr>)"
  using assms category_queue[of meth]
  by (cases "category meth \<in> handlerThreads s")
     (simp_all add: launch_thread_def Let_def category_def[symmetric] insert_absorb)


text \<open>What a poll does on a started record, branch by branch.\<close>

lemma poll_pollable:
  assumes "pollable s i r st pd d qt pt"
  shows "poll i now s =
    (let s' = s\<lparr>heap := (heap s)(r := (heap s r)\<lparr>polldata := Some (pd @ [concat d]),
                                                  data := Some []\<rparr>)\<rparr> in
     if \<not> is_utf8 (concat d) then (Inl UnicodeDecodeError, s')
     else if st \<noteq> Complete then
       (Inr \<lparr>resp_status = st, resp_result = concat d, queueDuration = qt,
             processDuration = now - pt\<rparr>, s')
     else if \<not> is_utf8 (concat (pd @ [concat d])) then (Inl UnicodeDecodeError, s')
     else
       (case error (heap s r) of
          Some m \<Rightarrow> (Inl (Exception m), s'\<lparr>handlers := (handlers s)(i := None)\<rparr>)
        | None \<Rightarrow>
           (Inr \<lparr>resp_status = Complete, resp_result = concat (pd @ [concat d]),
                 queueDuration = qt, processDuration = pt\<rparr>,
            s'\<lparr>handlers := (handlers s)(i := None)\<rparr>)))"
  using assms
  by (simp add: poll_def pollable_def Let_def decode_def split: option.splits)

lemma pollable_timed: "pollable s i r st pd d qt pt \<Longrightarrow> timed s i r st qt pt"
  by (simp add: pollable_def timed_def)

text \<open>A non-empty read on the pipe of a started job appends the chunk to \<open>data\<close>.\<close>

lemma read_pollable:
  assumes "pollable s i r st pd d qt pt" "idMap s fd = Some i" "i \<noteq> []" "c \<noteq> []"
    "fd \<notin> closed_pipes s"
  shows "read fd c s
    = (Inr (), s\<lparr>heap := (heap s)(r := (heap s r)\<lparr>data := Some (d @ [c])\<rparr>)\<rparr>)"
proof -
  have "lock (heap s r)" using assms(1) by (simp add: pollable_def)
  then have "heap s r \<noteq> empty_job" by (auto simp: empty_job_def)
  then show ?thesis using assms by (simp add: read_def pollable_def Let_def)
qed

lemma read_pollable_after:
  assumes "pollable s i r st pd d qt pt" "idMap s fd = Some i" "i \<noteq> []" "c \<noteq> []"
    "fd \<notin> closed_pipes s"
  shows "pollable (snd (read fd c s)) i r st pd (d @ [c]) qt pt
    \<and> idMap (snd (read fd c s)) fd = Some i
    \<and> fd \<notin> closed_pipes (snd (read fd c s))
    \<and> pipe (heap (snd (read fd c s)) r) = pipe (heap s r)
    \<and> error (heap (snd (read fd c s)) r) = error (heap s r)"
  using assms by (simp add: read_pollable[OF assms] pollable_def)

text \<open>Neither the multiplexer nor a poll on a running job touches the registry entry, the
  status or the two times of a record.\<close>

lemma remove_timed: "timed s i r st qt pt \<Longrightarrow> timed (snd (remove fd s)) i r st qt pt"
  by (auto simp: remove_def timed_def Let_def split: option.splits)

lemma removeId_timed: "timed s i r st qt pt \<Longrightarrow> timed (snd (removeId j s)) i r st qt pt"
  by (auto simp: removeId_def remove_timed split: option.splits)

lemma read_timed:
  assumes "timed s i r st qt pt"
  shows "timed (snd (read fd c s)) i r st qt pt"
proof -
  have "\<And>r' d. timed (s\<lparr>heap := (heap s)(r' := (heap s r')\<lparr>data := Some d\<rparr>)\<rparr>) i r st qt pt"
    using assms by (auto simp: timed_def)
  then show ?thesis
    using assms by (auto simp: read_def Let_def removeId_timed split: option.splits)
qed

lemma poll_timed:
  "timed s i r st qt pt \<Longrightarrow> st \<noteq> Complete \<Longrightarrow> timed (snd (poll i now s)) i r st qt pt"
  by (auto simp: poll_def timed_def Let_def split: option.splits sum.splits)

lemma snd_replay_Poll:
  "snd (replay i fd (Poll t # es) s) = snd (replay i fd es (snd (poll i t s)))"
  by (simp split: prod.splits)

lemma replay_timed:
  "timed s i r st qt pt \<Longrightarrow> st \<noteq> Complete \<Longrightarrow> timed (snd (replay i fd es s)) i r st qt pt"
proof (induction es arbitrary: s)
  case Nil
  then show ?case by simp
next
  case (Cons e es)
  show ?case
  proof (cases e)
    case (Chunk c)
    then show ?thesis using Cons read_timed[OF Cons.prems(1)] by simp
  next
    case (Poll t)
    have "timed (snd (poll i t s)) i r st qt pt"
      using poll_timed[OF Cons.prems] .
    from Cons.IH[OF this Cons.prems(2)] show ?thesis
      using Poll by (simp only: snd_replay_Poll)
  qed
qed

lemma poll_timed_response:
  "timed s i r st qt pt \<Longrightarrow> fst (poll i now s) = Inr resp \<Longrightarrow>
   resp_status resp = st \<and> queueDuration resp = qt \<and>
   processDuration resp = (if st = Complete then pt else now - pt)"
  by (auto simp: poll_def timed_def Let_def split: option.splits sum.splits if_splits)

text \<open>The worker's first step on a job that was just submitted.\<close>

lemma run_begin_submitted:
  assumes "jid \<noteq> []"
  shows "\<exists>s2. run_begin \<lparr>e_method = m, e_args = a, e_id = jid\<rparr> t1 t2
            (snd (launch_thread m a (Some jid) t0 s))
          = (Inr (next_ref s, a(''myId'' \<mapsto> VStr jid)), s2)
        \<and> pollable s2 jid (next_ref s) InProgress [] [] (t2 - t0) t1"
  using assms by (simp add: launch_thread_Some run_begin_def Let_def pollable_def empty_job_def)

lemma run_end_timed:
  "timed s i r st qt pt \<Longrightarrow>
   \<exists>s'. run_end r out t3 s = (Inr (), s') \<and> timed s' i r Complete qt (t3 - pt)"
  by (auto simp: run_end_eq timed_def Let_def split: outcome.splits option.splits)

text \<open>The states of the sample job.\<close>

lemma spawned_pollable:
  "pollable spawned ''abc'' 0 InProgress [] [] 3 12 \<and> idMap spawned 7 = Some ''abc''
   \<and> pipe (heap spawned 0) = Some 7 \<and> error (heap spawned 0) = None
   \<and> 7 \<notin> closed_pipes spawned"
  by (simp add: submitted_def started_def spawned_def sample_item_def launch_thread_Some
        category_def queueMap_def run_begin_def execCommand_begin_def add_def empty_job_def
        init_def Let_def pollable_def)

lemma failed_command:
  "fst (execCommand_end 0 sample_command 1 spawned)
     = Inl (Exception ''Command: archive_to_s3.py --project demo returned 1'')"
  using spawned_pollable
  by (simp add: execCommand_end_def pollable_def Let_def sample_command_def str_int_def)

lemma failed_pollable:
  "pollable failed ''abc'' 0 Complete [] [] 3 8 \<and>
   error (heap failed 0) = Some ''Command: archive_to_s3.py --project demo returned 1''"
  using spawned_pollable
  by (simp add: failed_def execCommand_end_def run_end_eq pollable_def Let_def)


lemma polled_once_eq:
  "fst polled_once = Inr \<lparr>resp_status = InProgress, resp_result = ''a'', queueDuration = 3,
      processDuration = 3\<rparr>
   \<and> pollable (snd polled_once) ''abc'' 0 InProgress [''a''] [] 3 12
   \<and> pipe (heap (snd polled_once) 0) = Some 7 \<and> error (heap (snd polled_once) 0) = None"
  using read_pollable_after[of spawned "''abc''" 0 InProgress "[]" "[]" 3 12 7 "''a''"]
    spawned_pollable
  by (simp add: polled_once_def poll_def pollable_def Let_def decode_def is_utf8_def)


lemma two_chunks_pollable:
  "pollable two_chunks ''abc'' 0 InProgress [] [''a'', ''b''] 3 12
   \<and> pipe (heap two_chunks 0) = Some 7 \<and> error (heap two_chunks 0) = None"
  using read_pollable_after[of spawned "''abc''" 0 InProgress "[]" "[]" 3 12 7 "''a''"]
    spawned_pollable
    read_pollable_after[of "snd (read 7 ''a'' spawned)" "''abc''" 0 InProgress "[]" "[''a'']"
      3 12 7 "''b''"]
  by (simp add: two_chunks_def)

section \<open>Submission\<close>

text \<open>C6. A submit without a job identifier (absent, or empty) raises and changes nothing.
  With an identifier it returns the advisory message at once; the registry then holds a
  record for the identifier that has only status queued and the enqueue time; the
  envelope is the last element of the queue of the operation's category, which is the
  table's entry for the operation name and \<^verbatim>\<open>local\<close> for a name not in the table; the
  other queues are unchanged, and that category has a worker. Nothing of the job has
  run: the envelope is still in the queue.\<close>

theorem submit_contract:
  "launch_thread meth args None now s = (Inl (Exception ''No ID found, screw this''), s) \<and>
   launch_thread meth args (Some []) now s = (Inl (Exception ''No ID found, screw this''), s) \<and>
   (jid \<noteq> [] \<longrightarrow>
     (case launch_thread meth args (Some jid) now s of
        (res, s') \<Rightarrow>
          res = Inr (''Please poll with id '' @ jid) \<and>
          (\<exists>r. handlers s' jid = Some r \<and>
               heap s' r = empty_job\<lparr>status := Some Queued, queueTime := Some now\<rparr>) \<and>
          (let q = (case queueMap meth of None \<Rightarrow> ''local'' | Some c \<Rightarrow> c) in
             q \<in> set queue_names \<and>
             queues s' q = queues s q @ [\<lparr>e_method = meth, e_args = args, e_id = jid\<rparr>] \<and>
             (\<forall>q'. q' \<noteq> q \<longrightarrow> queues s' q' = queues s q') \<and>
             q \<in> handlerThreads s')))"
  using category_queue[of meth]
  by (simp add: launch_thread_Some Let_def category_def[symmetric]) (simp add: launch_thread_def)

theorem submit_contract_witness:
  "launch_thread ''render_edl'' Map.empty None 10 init
     = (Inl (Exception ''No ID found, screw this''), init) \<and>
   ''abc'' \<noteq> [] \<and>
   fst (launch_thread ''render_edl'' Map.empty (Some ''abc'') 10 init)
     = Inr ''Please poll with id abc'' \<and>
   queues (snd (launch_thread ''render_edl'' Map.empty (Some ''abc'') 10 init)) ''cpu-bound''
     = [\<lparr>e_method = ''render_edl'', e_args = Map.empty, e_id = ''abc''\<rparr>] \<and>
   queues (snd (launch_thread ''frobnicate'' Map.empty (Some ''abc'') 10 init)) ''local''
     = [\<lparr>e_method = ''frobnicate'', e_args = Map.empty, e_id = ''abc''\<rparr>]"
  using submit_contract[of "''render_edl''" Map.empty 10 init "''abc''"]
        submit_contract[of "''frobnicate''" Map.empty 10 init "''abc''"]
  by (simp add: queueMap_def init_def Let_def split: prod.splits)

text \<open>C10. A submit whose identifier is already in the registry does not raise. The
  registry then maps the identifier to a record that has only status queued and the new
  enqueue time: no lock, no buffers, no error and no result of the earlier job.\<close>

theorem resubmit_overwrites:
  "jid \<noteq> [] \<Longrightarrow> handlers s jid = Some old \<Longrightarrow>
   (case launch_thread meth args (Some jid) now s of
      (res, s') \<Rightarrow>
        res = Inr (''Please poll with id '' @ jid) \<and>
        (\<exists>r. handlers s' jid = Some r \<and>
             heap s' r = empty_job\<lparr>status := Some Queued, queueTime := Some now\<rparr> \<and>
             lock (heap s' r) = False \<and> data (heap s' r) = None \<and>
             polldata (heap s' r) = None \<and> error (heap s' r) = None \<and>
             result (heap s' r) = None \<and> results (heap s' r) = None))"
  by (simp add: launch_thread_Some empty_job_def)

theorem resubmit_overwrites_witness:
  "''abc'' \<noteq> [] \<and> handlers failed ''abc'' = Some 0 \<and>
   error (heap failed 0) = Some ''Command: archive_to_s3.py --project demo returned 1'' \<and>
   fst (launch_thread ''render_edl'' Map.empty (Some ''abc'') 40 failed)
     = Inr ''Please poll with id abc'' \<and>
   (\<exists>r. handlers (snd (launch_thread ''render_edl'' Map.empty (Some ''abc'') 40 failed)) ''abc''
          = Some r \<and>
        heap (snd (launch_thread ''render_edl'' Map.empty (Some ''abc'') 40 failed)) r
          = empty_job\<lparr>status := Some Queued, queueTime := Some 40\<rparr>)"
  using resubmit_overwrites[where jid = "''abc''" and old = 0 and meth = "''render_edl''"
     and args = Map.empty and now = 40 and s = failed] failed_pollable
  by (auto simp: pollable_def split: prod.splits)

text \<open>C5. A poll on a job that was just submitted raises \<^verbatim>\<open>KeyError('lock')\<close>: the record
  made by the submit has no lock, and the poll takes the lock before it builds a
  response.\<close>

theorem poll_queued_raises:
  "jid \<noteq> [] \<Longrightarrow>
   fst (poll jid t (snd (launch_thread meth args (Some jid) now s)))
     = Inl (KeyError (KStr ''lock''))"
  by (simp add: launch_thread_Some poll_def empty_job_def)

theorem poll_queued_raises_witness:
  "''abc'' \<noteq> [] \<and>
   fst (poll ''abc'' 11 (snd (launch_thread ''upload_inputs'' Map.empty (Some ''abc'') 10 init)))
     = Inl (KeyError (KStr ''lock''))"
  using poll_queued_raises[of "''abc''" 11 "''upload_inputs''" Map.empty 10 init] by simp

section \<open>The multiplexer's registration table\<close>

text \<open>Adding a stream that is already registered is tolerated: the selector's
  \<^verbatim>\<open>KeyError\<close> is caught.\<close>

lemma add_registered_tolerated:
  "handlers s i = Some r \<Longrightarrow> pipe (heap s r) = Some fd \<Longrightarrow> fd \<in> sel s \<Longrightarrow>
   add i s = (Inr (), s\<lparr>idMap := (idMap s)(fd \<mapsto> i)\<rparr>)"
  by (simp add: add_def Let_def)

text \<open>C7. Removing a stream that is not registered raises \<^verbatim>\<open>KeyError\<close> out of
  \<^verbatim>\<open>remove\<close>, whether it is missing from \<open>idMap\<close> or from the selector.\<close>

theorem remove_unregistered_raises:
  "fd \<notin> dom (idMap s) \<or> fd \<notin> sel s \<Longrightarrow> fst (remove fd s) = Inl (KeyError (KPipe fd))"
  by (auto simp: remove_def Let_def split: option.splits)

theorem remove_unregistered_raises_witness:
  "3 \<notin> dom (idMap init) \<and> fst (remove 3 init) = Inl (KeyError (KPipe 3))"
  using remove_unregistered_raises[of 3 init] by (simp add: init_def)

section \<open>The terminal poll\<close>







section \<open>Durations\<close>

lemma add_timed: "timed s i r st qt pt \<Longrightarrow> timed (snd (add j s)) i r st qt pt"
  by (auto simp: add_def timed_def Let_def split: option.splits)

lemma pipe_update_timed:
  "timed s i r st qt pt \<Longrightarrow>
   timed (s\<lparr>heap := (heap s)(r' := (heap s r')\<lparr>pipe := Some fd\<rparr>)\<rparr>) i r st qt pt"
  by (auto simp: timed_def)

lemma fresh_thread_timed:
  "timed s i r st qt pt \<Longrightarrow>
   timed (s\<lparr>outputThread := True, idMap := Map.empty, sel := {}\<rparr>) i r st qt pt"
  by (simp add: timed_def)

lemma snd_add_case:
  "snd (case add j s of (Inl e, s2) \<Rightarrow> (Inl e, s2) | (Inr u, s2) \<Rightarrow> (Inr r, s2))
     = snd (add j s)"
  by (auto split: prod.splits sum.splits)

lemma execCommand_begin_timed:
  assumes "timed s i r st qt pt"
  shows "timed (snd (execCommand_begin j p s)) i r st qt pt"
proof (cases "outputThread s")
  case True
  then show ?thesis
    using assms add_timed[OF pipe_update_timed[OF assms]]
    by (simp add: execCommand_begin_def Let_def snd_add_case split: option.splits)
next
  case False
  then show ?thesis
    using fresh_thread_timed[OF assms]
      add_timed[OF pipe_update_timed[OF fresh_thread_timed[OF assms]]]
    by (simp add: execCommand_begin_def Let_def snd_add_case split: option.splits)
qed

lemma replay_sample:
  "replay ''abc'' 7 [Chunk ''a'', Poll 15] spawned = ([fst polled_once], snd polled_once)"
  by (simp add: polled_once_def split: prod.splits)

lemma poll_running_sample:
  "fst (poll ''abc'' 16 (snd polled_once))
     = Inr \<lparr>resp_status = InProgress, resp_result = [], queueDuration = 3, processDuration = 4\<rparr>"
  using polled_once_eq
  by (simp add: poll_pollable[of "snd polled_once" "''abc''" 0 InProgress "[''a'']" "[]" 3 12]
       Let_def is_utf8_def)

lemma finished_alt:
  "run_end 0 (Returned None) 20 (snd polled_once) = (Inr (), snd (run_end 0 (Returned None) 20 (snd polled_once)))
   \<and> pollable (snd (run_end 0 (Returned None) 20 (snd polled_once))) ''abc'' 0 Complete [''a''] [] 3 8
   \<and> error (heap (snd (run_end 0 (Returned None) 20 (snd polled_once))) 0) = None"
  using polled_once_eq by (simp add: run_end_eq pollable_def Let_def)

text \<open>Polls that do not fall between the worker's last two writes. A job is submitted at
  time \<open>t0\<close>; its worker dequeues it, reading the clock at \<open>t1\<close> (start of execution) and
  \<open>t2\<close> (end of the queue wait); the handler spawns its command; the multiplexer reads
  and clients poll while it runs; the worker finishes at \<open>t3\<close>. A poll at \<open>now\<close> that
  returns normally while the job runs reports status in-progress, the queue wait
  \<open>t2 - t0\<close> and the execution time so far \<open>now - t1\<close>; the worker's last step does not
  raise, and a poll that returns normally after it reports status complete, the same
  queue wait and the total execution time \<open>t3 - t1\<close>. The identifier is not submitted
  again meanwhile.\<close>

theorem poll_durations:
  assumes "jid \<noteq> []"
    and "run_begin \<lparr>e_method = m, e_args = a, e_id = jid\<rparr> t1 t2
           (snd (launch_thread m a (Some jid) t0 s)) = (begun, s2)"
    and "replay jid fd es (snd (execCommand_begin jid p s2)) = (outs, s3)"
    and "run_end (next_ref s) out t3 s3 = (ended, s4)"
  shows "begun = Inr (next_ref s, a(''myId'' \<mapsto> VStr jid)) \<and> ended = Inr () \<and>
         (fst (poll jid now s3) = Inr resp \<longrightarrow>
           resp_status resp = InProgress \<and> queueDuration resp = t2 - t0 \<and>
           processDuration resp = now - t1) \<and>
         (fst (poll jid now s4) = Inr resp \<longrightarrow>
           resp_status resp = Complete \<and> queueDuration resp = t2 - t0 \<and>
           processDuration resp = t3 - t1)"
proof -
  from run_begin_submitted[OF assms(1), of m a t1 t2 t0 s]
  have b: "begun = Inr (next_ref s, a(''myId'' \<mapsto> VStr jid))"
    and t2: "timed s2 jid (next_ref s) InProgress (t2 - t0) t1"
    using assms(2) by (auto dest: pollable_timed)
  have "timed (snd (execCommand_begin jid p s2)) jid (next_ref s) InProgress (t2 - t0) t1"
    using execCommand_begin_timed[OF t2] .
  then have t3: "timed s3 jid (next_ref s) InProgress (t2 - t0) t1"
    using replay_timed[of "snd (execCommand_begin jid p s2)" jid "next_ref s" InProgress
        "t2 - t0" t1 fd es] assms(3) by simp
  from run_end_timed[OF t3, of out t3]
  have e: "ended = Inr ()" and t4: "timed s4 jid (next_ref s) Complete (t2 - t0) (t3 - t1)"
    using assms(4) by auto
  show ?thesis
    using b e poll_timed_response[OF t3] poll_timed_response[OF t4] by auto
qed

theorem poll_durations_witness:
  "''abc'' \<noteq> [] \<and>
   fst (run_begin sample_item 12 13 submitted) = Inr (0, [''myId'' \<mapsto> VStr ''abc'']) \<and>
   fst (poll ''abc'' 16 (snd polled_once))
     = Inr \<lparr>resp_status = InProgress, resp_result = [], queueDuration = 13 - 10,
           processDuration = 16 - 12\<rparr> \<and>
   fst (poll ''abc'' 30 (snd (run_end 0 (Returned None) 20 (snd polled_once))))
     = Inr \<lparr>resp_status = Complete, resp_result = ''a'', queueDuration = 13 - 10,
           processDuration = 20 - 12\<rparr>"
proof -
  have n: "next_ref init = 0" by (simp add: init_def)
  have r: "replay ''abc'' 7 [Chunk ''a'', Poll 15]
             (snd (execCommand_begin ''abc'' (Some 7) (snd (run_begin sample_item 12 13 submitted))))
           = ([fst polled_once], snd polled_once)"
    using replay_sample by (simp add: spawned_def started_def)
  have p2: "fst (poll ''abc'' 30 (snd (run_end 0 (Returned None) 20 (snd polled_once))))
     = Inr \<lparr>resp_status = Complete, resp_result = ''a'', queueDuration = 3, processDuration = 8\<rparr>"
    using finished_alt
    by (simp add: poll_pollable[of "snd (run_end 0 (Returned None) 20 (snd polled_once))" "''abc''" 0 Complete "[''a'']" "[]" 3 8]
       Let_def is_utf8_def)
  show ?thesis
    using poll_durations[where jid = "''abc''" and m = "''archive_to_s3''" and a = Map.empty
        and ?t1.0 = 12 and ?t2.0 = 13 and ?t0.0 = 10 and s = init
        and begun = "fst (run_begin sample_item 12 13 submitted)"
        and ?s2.0 = "snd (run_begin sample_item 12 13 submitted)"
        and fd = 7 and es = "[Chunk ''a'', Poll 15]" and p = "Some 7"
        and outs = "[fst polled_once]" and ?s3.0 = "snd polled_once"
        and out = "Returned None" and ?t3.0 = 20
        and ended = "fst (run_end 0 (Returned None) 20 (snd polled_once))"
        and ?s4.0 = "snd (run_end 0 (Returned None) 20 (snd polled_once))"
        and now = 16, OF _ _ _ _]
      r n poll_running_sample p2
    by (simp add: sample_item_def submitted_def)
qed

lemma finishing_pollable:
  "pollable finishing ''abc'' 0 Complete [''a''] [] 3 12 \<and> error (heap finishing 0) = None"
  using polled_once_eq
  by (simp add: finishing_def execCommand_end_def run_end_status_def pollable_def Let_def)

text \<open>C8. In \<open>finishing\<close> the worker of the sample job, which started the job at time 12,
  has set the status to complete and has not yet replaced the start time in
  \<^verbatim>\<open>processTime\<close> by the duration. A poll at time 19 returns normally with status
  complete, reports the start time 12 as \<open>processDuration\<close> and deletes the record; the
  worker's next statement, at time 20, makes the duration 8.\<close>

theorem poll_between_final_writes:
  "status (heap finishing 0) = Some Complete \<and> processTime (heap finishing 0) = Some 12 \<and>
   fst (poll ''abc'' 19 finishing)
     = Inr \<lparr>resp_status = Complete, resp_result = ''a'', queueDuration = 3,
           processDuration = 12\<rparr> \<and>
   handlers (snd (poll ''abc'' 19 finishing)) ''abc'' = None \<and>
   fst (run_end_time 0 20 finishing) = Inr () \<and>
   processTime (heap (snd (run_end_time 0 20 finishing)) 0) = Some 8"
proof -
  have p: "pollable finishing ''abc'' 0 Complete [''a''] [] 3 12"
    and e: "error (heap finishing 0) = None"
    using finishing_pollable by simp_all
  have "fst (poll ''abc'' 19 finishing)
     = Inr \<lparr>resp_status = Complete, resp_result = ''a'', queueDuration = 3,
           processDuration = 12\<rparr>"
    and "handlers (snd (poll ''abc'' 19 finishing)) ''abc'' = None"
    using e by (simp_all add: poll_pollable[OF p] Let_def is_utf8_def)
  moreover have "fst (run_end_time 0 20 finishing) = Inr ()"
    and "processTime (heap (snd (run_end_time 0 20 finishing)) 0) = Some 8"
    using p by (simp_all add: run_end_time_def pollable_def)
  ultimately show ?thesis
    using p by (simp add: pollable_def)
qed

section \<open>Draining the output buffer\<close>

lemma poll_running:
  assumes "pollable s i r InProgress pd d qt pt"
  shows "fst (poll i t s)
           = (if is_utf8 (concat d)
              then Inr \<lparr>resp_status = InProgress, resp_result = concat d, queueDuration = qt,
                        processDuration = t - pt\<rparr>
              else Inl UnicodeDecodeError)"
    and "pollable (snd (poll i t s)) i r InProgress (pd @ [concat d]) [] qt pt"
    and "idMap (snd (poll i t s)) = idMap s"
    and "closed_pipes (snd (poll i t s)) = closed_pipes s"
  using assms by (simp_all add: poll_pollable[OF assms] Let_def pollable_def)





text \<open>A two-byte character split over two reads, with a poll after each: both polls
  drain their chunk and raise.\<close>

lemma split_character_polls:
  "fst (replay ''abc'' 7 [Chunk [CHR 0xC3], Poll 15, Chunk [CHR 0xA9], Poll 16] spawned)
     = [Inl UnicodeDecodeError, Inl UnicodeDecodeError]"
proof -
  let ?s1 = "snd (read 7 [CHR 0xC3] spawned)"
  let ?s2 = "snd (poll ''abc'' 15 ?s1)"
  let ?s3 = "snd (read 7 [CHR 0xA9] ?s2)"
  have 1: "pollable ?s1 ''abc'' 0 InProgress [] [[CHR 0xC3]] 3 12"
    and m1: "idMap ?s1 7 = Some ''abc''" and o1: "7 \<notin> closed_pipes ?s1"
    using read_pollable_after[of spawned "''abc''" 0 InProgress "[]" "[]" 3 12 7 "[CHR 0xC3]"]
      spawned_pollable by simp_all
  note p1 = poll_running[OF 1, of 15]
  have f1: "fst (poll ''abc'' 15 ?s1) = Inl UnicodeDecodeError"
    using p1(1) by (simp add: is_utf8_def)
  have 2: "pollable ?s2 ''abc'' 0 InProgress [[CHR 0xC3]] [] 3 12"
    using p1(2) by simp
  have 3: "pollable ?s3 ''abc'' 0 InProgress [[CHR 0xC3]] [[CHR 0xA9]] 3 12"
    using read_pollable_after[OF 2, of 7 "[CHR 0xA9]"] m1 o1 p1(3,4) by simp
  have f2: "fst (poll ''abc'' 16 ?s3) = Inl UnicodeDecodeError"
    using poll_running(1)[OF 3, of 16] by (simp add: is_utf8_def)
  have r: "\<And>t es s. fst (replay ''abc'' 7 (Poll t # es) s)
      = fst (poll ''abc'' t s) # fst (replay ''abc'' 7 es (snd (poll ''abc'' t s)))"
    by (simp split: prod.splits)
  show ?thesis
    using f1 f2 by (simp only: r replay.simps(1,2) fst_conv)
qed




section \<open>The worker loop\<close>

text \<open>No operation of the server changes the \<^verbatim>\<open>processTime\<close> of a record, the worker's
  own steps apart.\<close>

lemma remove_processTime:
  "processTime (heap (snd (remove fd s)) r) = processTime (heap s r)"
  by (auto simp: remove_def Let_def split: option.splits)

lemma removeId_processTime:
  "processTime (heap (snd (removeId j s)) r) = processTime (heap s r)"
  by (auto simp: removeId_def remove_processTime split: option.splits)

lemma read_processTime:
  "processTime (heap (snd (read fd c s)) r) = processTime (heap s r)"
  by (auto simp: read_def Let_def removeId_processTime split: option.splits)

lemma poll_processTime:
  "processTime (heap (snd (poll i t s)) r) = processTime (heap s r)"
  by (auto simp: poll_def Let_def split: option.splits sum.splits)

lemma add_processTime:
  "processTime (heap (snd (add j s)) r) = processTime (heap s r)"
  by (auto simp: add_def Let_def split: option.splits)

lemma execCommand_begin_processTime:
  "processTime (heap (snd (execCommand_begin j p s)) r) = processTime (heap s r)"
  by (auto simp: execCommand_begin_def Let_def snd_add_case add_processTime split: option.splits)

lemma execCommand_end_processTime:
  "processTime (heap (snd (execCommand_end r' command rc s)) r) = processTime (heap s r)"
  by (auto simp: execCommand_end_def Let_def split: option.splits sum.splits)

lemma launch_thread_processTime:
  "r < next_ref s \<Longrightarrow>
   processTime (heap (snd (launch_thread m a j t s)) r) = processTime (heap s r)"
  by (auto simp: launch_thread_def Let_def split: option.splits)

text \<open>Without a record that has its enqueue time the worker stops before the handler is
  called: the \<^verbatim>\<open>KeyError\<close> is raised outside the \<^verbatim>\<open>try\<close>.\<close>

lemma run_begin_unknown:
  "handlers s (e_id item) = None \<Longrightarrow>
   fst (run_begin item t1 t2 s) = Inl (KeyError (KStr ''queueTime''))"
  by (simp add: run_begin_def Let_def empty_job_def)

lemma run_end_survives:
  "processTime (heap s r) = Some t \<Longrightarrow>
   \<exists>s'. run_end r out t3 s = (Inr (), s') \<and> status (heap s' r) = Some Complete \<and>
        (\<forall>m. out = Raised m \<longrightarrow> error (heap s' r) = Some m)"
proof (cases out)
  case (Raised m)
  assume "processTime (heap s r) = Some t"
  then show ?thesis using Raised by (simp add: run_end_eq Let_def)
next
  case (Returned v)
  assume "processTime (heap s r) = Some t"
  then show ?thesis using Returned by (simp add: run_end_eq Let_def split: option.splits)
qed

text \<open>C4. The worker of queue \<open>q\<close> takes the envelope \<open>item\<close> whose record \<open>r\<close> is in the
  registry as the submit made it. Whatever the handler does, raise or return, and also
  when the thread has no attribute of the operation's name (which raises inside the
  \<^verbatim>\<open>try\<close>), the turn of the loop ends without an exception, the record has status
  complete, the message of a raised exception is its \<open>error\<close>, and the loop goes on
  with the rest of the queue.\<close>

theorem worker_survives_failure:
  assumes "queues s q = item # items" "e_id item \<noteq> []" "e_method item \<noteq> []"
    and "handlers s (e_id item) = Some r" "queueTime (heap s r) = Some t0"
    and "keeps_processTime env r"
  shows "\<exists>a s1 out s2 s3.
      run_begin item t1 t2 (s\<lparr>queues := (queues s)(q := items)\<rparr>) = (Inr (r, a), s1) \<and>
      (if hasattr env (e_method item) then call env (e_method item) a s1
       else (Raised (''No thread handler exists for method '' @ e_method item), s1))
        = (out, s2) \<and>
      run_item env item (t1, t2, t3) (s\<lparr>queues := (queues s)(q := items)\<rparr>) = (Inr (), s3) \<and>
      status (heap s3 r) = Some Complete \<and>
      (\<forall>m. out = Raised m \<longrightarrow> error (heap s3 r) = Some m) \<and>
      run env q ((t1, t2, t3) # rest) s = run env q rest s3"
proof -
  let ?sq = "s\<lparr>queues := (queues s)(q := items)\<rparr>"
  let ?a = "(e_args item)(''myId'' \<mapsto> VStr (e_id item))"
  obtain s1 where b: "run_begin item t1 t2 ?sq = (Inr (r, ?a), s1)"
    and p1: "processTime (heap s1 r) = Some t1"
    using assms(4,5) by (simp add: run_begin_def Let_def)
  obtain out s2 where c: "(if hasattr env (e_method item) then call env (e_method item) ?a s1
       else (Raised (''No thread handler exists for method '' @ e_method item), s1)) = (out, s2)"
    by (cases "(if hasattr env (e_method item) then call env (e_method item) ?a s1
       else (Raised (''No thread handler exists for method '' @ e_method item), s1))") blast
  have p2: "processTime (heap s2 r) \<noteq> None"
  proof (cases "hasattr env (e_method item)")
    case True
    then have "s2 = snd (call env (e_method item) ?a s1)" using c by simp
    then show ?thesis using assms(6) p1 by (simp add: keeps_processTime_def)
  next
    case False
    then show ?thesis using c p1 by simp
  qed
  then obtain t where p2': "processTime (heap s2 r) = Some t" by blast
  obtain s3 where e: "run_end r out t3 s2 = (Inr (), s3)"
    and st: "status (heap s3 r) = Some Complete"
    and er: "\<forall>m. out = Raised m \<longrightarrow> error (heap s3 r) = Some m"
    using run_end_survives[OF p2', of out t3] by blast
  have ri: "run_item env item (t1, t2, t3) ?sq = (Inr (), s3)"
    using assms(2,3) b c e by (auto simp: run_item_def split: if_splits)
  have lp: "run env q ((t1, t2, t3) # rest) s = run env q rest s3"
    using assms(1) ri by simp
  show ?thesis
    using b c ri st er lp by blast
qed

lemma submitted_queue:
  "queues submitted ''external-network-bound'' = [sample_item] \<and>
   handlers submitted ''abc'' = Some 0 \<and> queueTime (heap submitted 0) = Some 10"
  by (simp add: submitted_def sample_item_def launch_thread_Some category_def queueMap_def
        init_def empty_job_def)

lemma keeps_failing_env: "keeps_processTime failing_env r"
  by (simp add: keeps_processTime_def failing_env_def)

theorem worker_survives_failure_witness:
  "queues submitted ''external-network-bound'' = sample_item # [] \<and> e_id sample_item \<noteq> [] \<and>
   e_method sample_item \<noteq> [] \<and> handlers submitted (e_id sample_item) = Some 0 \<and>
   queueTime (heap submitted 0) = Some 10 \<and> keeps_processTime failing_env 0 \<and>
   (\<exists>s3. run failing_env ''external-network-bound'' [(12, 13, 20)] submitted = (Inr (), s3) \<and>
         status (heap s3 0) = Some Complete \<and> error (heap s3 0) = Some ''boom'')"
  using worker_survives_failure[where s = submitted and q = "''external-network-bound''"
      and item = sample_item and items = "[]" and r = 0 and ?t0.0 = 10 and env = failing_env
      and ?t1.0 = 12 and ?t2.0 = 13 and ?t3.0 = 20 and rest = "[]"]
    submitted_queue keeps_failing_env
  by (auto simp: sample_item_def failing_env_def queueMap_def)

section \<open>The command runner's result\<close>

text \<open>What the command runner raises or stores once the command has exited.\<close>

lemma execCommand_end_nonzero:
  assumes "pipe (heap s r) = Some p" "lock (heap s r)" "data (heap s r) = Some d"
    and "retCode \<noteq> 0" "d = [] \<or> is_utf8 (join '' '' d)"
  shows "fst (execCommand_end r command retCode s)
    = Inl (Exception (''Command: '' @ join '' '' command @ '' returned '' @ str_int retCode
         @ (if join '' '' d = [] then []
            else [CHR 0x0A, CHR 0x0A] @ ''Output: '' @ join '' '' d)))"
  using assms by (auto simp: execCommand_end_def Let_def decode_def)

lemma execCommand_end_zero:
  assumes "pipe (heap s r) = Some p" "lock (heap s r)" "data (heap s r) = Some d"
    and "d = [] \<or> is_utf8 (join '' '' d)"
  shows "fst (execCommand_end r command 0 s) = Inr ()"
    and "result (heap (snd (execCommand_end r command 0 s)) r)
           = Some (if d = [] then None else Some (join '' '' d))"
  using assms by (auto simp: execCommand_end_def Let_def decode_def)

lemma exited_pollable:
  "result (heap exited 0) = Some (Some ''a b'')
   \<and> pollable exited ''abc'' 0 InProgress [] [''a'', ''b''] 3 12 \<and> error (heap exited 0) = None"
  using two_chunks_pollable
  by (simp add: exited_def execCommand_end_def pollable_def Let_def decode_def is_utf8_def)

text \<open>C3. The command of the sample job writes \<^verbatim>\<open>a\<close> and \<^verbatim>\<open>b\<close> in two reads and exits with
  code 0. The command runner stores \<^verbatim>\<open>a b\<close> as \<open>result\<close>: it joins the chunks with a
  space. The terminal poll returns \<^verbatim>\<open>ab\<close>, the output.\<close>

theorem stored_result_has_spaces:
  "data (heap two_chunks 0) = Some [''a'', ''b''] \<and>
   fst (execCommand_end 0 sample_command 0 two_chunks) = Inr () \<and>
   result (heap exited 0) = Some (Some ''a b'') \<and>
   fst (poll ''abc'' 30 (snd (run_end 0 (Returned None) 20 exited)))
     = Inr \<lparr>resp_status = Complete, resp_result = ''ab'', queueDuration = 3,
           processDuration = 8\<rparr>"
proof -
  have d: "data (heap two_chunks 0) = Some [''a'', ''b'']"
    and l: "lock (heap two_chunks 0)" and pi: "pipe (heap two_chunks 0) = Some 7"
    using two_chunks_pollable by (simp_all add: pollable_def)
  have u: "[''a'', ''b''] = [] \<or> is_utf8 (join '' '' [''a'', ''b''])"
    by (simp add: is_utf8_def)
  have x: "fst (execCommand_end 0 sample_command 0 two_chunks) = Inr ()"
    using execCommand_end_zero(1)[OF pi l d u] .
  have p: "pollable exited ''abc'' 0 InProgress [] [''a'', ''b''] 3 12"
    and e: "error (heap exited 0) = None"
    using exited_pollable by simp_all
  have q: "pollable (snd (run_end 0 (Returned None) 20 exited)) ''abc'' 0 Complete []
             [''a'', ''b''] 3 8"
    and e': "error (heap (snd (run_end 0 (Returned None) 20 exited)) 0) = None"
    using p e by (simp_all add: run_end_eq pollable_def Let_def)
  have "fst (poll ''abc'' 30 (snd (run_end 0 (Returned None) 20 exited)))
     = Inr \<lparr>resp_status = Complete, resp_result = ''ab'', queueDuration = 3,
           processDuration = 8\<rparr>"
    using e' by (simp add: poll_pollable[OF q] Let_def is_utf8_def)
  then show ?thesis
    using d x exited_pollable by simp
qed

lemma failure_message_sample:
  "fst (execCommand_end 0 sample_command 1 two_chunks)
     = Inl (Exception (''Command: archive_to_s3.py --project demo returned 1''
          @ [CHR 0x0A, CHR 0x0A] @ ''Output: a b''))"
  using two_chunks_pollable
  by (simp add: execCommand_end_def pollable_def Let_def decode_def is_utf8_def
        sample_command_def str_int_def)

end
